theory Spec2Isabelle
  imports Main
begin

section \<open>Data model\<close>

text \<open>
  The rows of the relational store, as the Go structs of package \<open>model\<close> declare them.
  A timestamp is an integer number of clock ticks. \<open>DeletedAt\<close> is the soft-delete
  column: \<open>None\<close> is SQL \<open>NULL\<close> (the row is live), \<open>Some t\<close> a row soft-deleted at \<open>t\<close>.
  A nullable reference (\<open>*int64\<close>) is an \<open>int option\<close>. The \<open>int64\<close> columns are
  integers; the range check of the store on a 64-bit column is not part of the model.
  Every struct embeds \<open>BaseModel\<close>, so every record extends it. Relationship
  pointers (preloaded associations) carry no column and are left out. Where two structs
  use one field name, the field is prefixed with the name of its struct.
\<close>

type_synonym time = int

record BaseModel =
  ID :: int
  CreatedAt :: time
  UpdatedAt :: time
  DeletedAt :: "time option"

record User = BaseModel +
  Username :: string
  Email :: string
  PasswordHash :: string
  FullName :: string
  Bio :: string
  AvatarURL :: string
  IsVerified :: bool
  IsPrivate :: bool
  FollwingCount :: int
  FollowerCount :: int
  PostCount :: int

record Follow = BaseModel +
  FollowerID :: int
  FollowingID :: int

datatype MediaType = MediaTypeUnknown | MediaTypeImage | MediaTypeVideo | MediaTypeText

record Post = BaseModel +
  Post_UserID :: int
  Post_Content :: string
  Post_MediaType :: MediaType
  MediaURL :: string
  IsPublic :: bool
  ViewCount :: int
  ShareCount :: int
  LikeCount :: int
  CommentCount :: int

record Comment = BaseModel +
  Comment_PostID :: int
  Comment_UserID :: int
  ParentID :: "int option"
  Comment_Content :: string
  LikesCount :: int
  RepliesCount :: int

datatype ReactionType =
  ReactionTypeUnknown | ReactionTypeLike | ReactionTypeLove | ReactionTypeHaha
  | ReactionTypeWow | ReactionTypeSad | ReactionTypeAngry

fun ReactionType_String :: "ReactionType \<Rightarrow> string" where
  "ReactionType_String ReactionTypeLike = ''like''"
| "ReactionType_String ReactionTypeLove = ''love''"
| "ReactionType_String ReactionTypeHaha = ''haha''"
| "ReactionType_String ReactionTypeWow = ''wow''"
| "ReactionType_String ReactionTypeSad = ''sad''"
| "ReactionType_String ReactionTypeAngry = ''angry''"
| "ReactionType_String ReactionTypeUnknown = ''unknown''"

record Reaction = BaseModel +
  Reaction_UserID :: int
  Reaction_PostID :: "int option"
  Reaction_CommentID :: "int option"
  Reaction_Type :: ReactionType

record ActivityFeed = BaseModel +
  Feed_UserID :: int
  Feed_PostID :: int
  AuthorID :: int
  PostCreated :: time

text \<open>
  The store: one list of rows per table, in insertion order. Soft-deleted rows stay in
  their table.
\<close>

record DB =
  users :: "User list"
  follows :: "Follow list"
  posts :: "Post list"
  comments :: "Comment list"
  reactions :: "Reaction list"
  activity_feeds :: "ActivityFeed list"

text \<open>
  The errors the modelled operations return. \<open>ErrInvalidData\<close> and \<open>ErrDuplicatedKey\<close>
  are the mapper's \<open>gorm.ErrInvalidData\<close> and \<open>gorm.ErrDuplicatedKey\<close> (the store is opened
  with \<open>TranslateError: true\<close>, so a unique-index violation surfaces as the latter).
  \<open>ErrInvalidAction s\<close> is \<open>fmt.Errorf("invalid action type: %s", s)\<close>,
  \<open>ErrUnknownColumn q c\<close> is the store rejecting a statement that names column \<open>q.c\<close>
  where no table or alias \<open>q\<close> is in scope, and \<open>Wrapped msg e\<close> is
  \<open>fmt.Errorf(msg + ": %w", e)\<close>.
\<close>

datatype error =
  ErrInvalidData
  | ErrDuplicatedKey
  | ErrRecordNotFound
  | ErrInvalidAction string
  | ErrUnknownColumn string string
  | Wrapped string error

text \<open>
  An auto-increment primary key: the mapper leaves a zero \<open>ID\<close> to the store, which
  assigns the next key after the largest one in the table.
\<close>

definition next_id :: "'a BaseModel_scheme list \<Rightarrow> int" where
  "next_id rows = fold max (map ID rows) 0 + 1"

section \<open>Graph store: follow and unfollow\<close>

text \<open>
  \<open>Follow.BeforeCreate\<close>: the hook the mapper runs before the insert; \<open>None\<close> is Go's
  \<open>nil\<close> error.
\<close>

definition Follow_BeforeCreate :: "Follow \<Rightarrow> error option" where
  "Follow_BeforeCreate f =
     (if FollowerID f = FollowingID f then Some ErrInvalidData else None)"

text \<open>
  The unique index \<open>idx_follower_following\<close> spans \<open>(follower_id, following_id)\<close> only:
  it does not contain \<open>deleted_at\<close>, so a soft-deleted edge still occupies its pair.
\<close>

definition idx_follower_following_taken :: "Follow list \<Rightarrow> int \<Rightarrow> int \<Rightarrow> bool" where
  "idx_follower_following_taken rows a b =
     list_ex (\<lambda>r. FollowerID r = a \<and> FollowingID r = b) rows"

text \<open>
  \<open>followRepository.Follow\<close>: \<open>db.Create(follow)\<close> runs the hook, and a hook error
  aborts the statement before any row is written; otherwise the store checks the unique
  index and inserts the row with a fresh key and the creation timestamps.
  The result is the store afterwards and the returned error.
\<close>

definition followRepository_Follow :: "DB \<Rightarrow> time \<Rightarrow> int \<Rightarrow> int \<Rightarrow> DB \<times> error option" where
  "followRepository_Follow db now followerID followingID =
     (let follow = \<lparr>ID = 0, CreatedAt = 0, UpdatedAt = 0, DeletedAt = None,
                     FollowerID = followerID, FollowingID = followingID\<rparr>
      in case Follow_BeforeCreate follow of
           Some e \<Rightarrow> (db, Some e)
         | None \<Rightarrow>
             if idx_follower_following_taken (follows db) followerID followingID
             then (db, Some ErrDuplicatedKey)
             else (db\<lparr>follows := follows db @
                        [follow\<lparr>ID := next_id (follows db), CreatedAt := now,
                                UpdatedAt := now\<rparr>]\<rparr>, None))"

text \<open>
  \<open>followRepository.Unfollow\<close>: \<open>Follow\<close> has a \<open>DeletedAt\<close> column, so the mapper's
  \<open>Delete\<close> is a soft delete: an \<open>UPDATE\<close> that sets \<open>deleted_at\<close> on the live rows
  matching the condition. A statement that matches no row is no error.
\<close>

definition followRepository_Unfollow :: "DB \<Rightarrow> time \<Rightarrow> int \<Rightarrow> int \<Rightarrow> DB \<times> error option" where
  "followRepository_Unfollow db now followerID followingID =
     (db\<lparr>follows :=
          map (\<lambda>r. if FollowerID r = followerID \<and> FollowingID r = followingID
                       \<and> DeletedAt r = None
                    then r\<lparr>DeletedAt := Some now\<rparr> else r)
              (follows db)\<rparr>, None)"

definition live_edge :: "DB \<Rightarrow> int \<Rightarrow> int \<Rightarrow> bool" where
  "live_edge db a b =
     list_ex (\<lambda>r. FollowerID r = a \<and> FollowingID r = b \<and> DeletedAt r = None) (follows db)"

section \<open>Reaction validator\<close>

text \<open>\<open>Reaction.BeforeCreate\<close>.\<close>

definition Reaction_BeforeCreate :: "Reaction \<Rightarrow> error option" where
  "Reaction_BeforeCreate r =
     (if (Reaction_PostID r = None \<and> Reaction_CommentID r = None)
         \<or> (Reaction_PostID r \<noteq> None \<and> Reaction_CommentID r \<noteq> None)
      then Some ErrInvalidData else None)"

text \<open>
  \<open>db.Create(reaction)\<close>, the only way the sources write a reaction row: the hook
  first, then the insert. The index \<open>idx_user_target\<close> is not unique, so the insert of a
  row that passed the hook adds it. Creating a row touches the \<open>reactions\<close> table alone;
  the counters are adjusted by separate calls of the repositories.
\<close>

definition Create_Reaction :: "DB \<Rightarrow> time \<Rightarrow> Reaction \<Rightarrow> DB \<times> error option" where
  "Create_Reaction db now r =
     (case Reaction_BeforeCreate r of
        Some e \<Rightarrow> (db, Some e)
      | None \<Rightarrow>
          (db\<lparr>reactions := reactions db @
               [r\<lparr>ID := (if ID r = 0 then next_id (reactions db) else ID r),
                   CreatedAt := now, UpdatedAt := now\<rparr>]\<rparr>, None))"

section \<open>Counter engine\<close>

datatype Action =
  ActionUnknown | ActionFollowing | ActionUnfollowing | ActionFollowed | ActionUnfollowed
  | ActionCreated | ActionDeleted | ActionLiked | ActionUnliked | ActionCommented
  | ActionUncommented | ActionShared

fun Action_String :: "Action \<Rightarrow> string" where
  "Action_String ActionFollowing = ''following''"
| "Action_String ActionUnfollowing = ''unfollowing''"
| "Action_String ActionFollowed = ''followed''"
| "Action_String ActionUnfollowed = ''unfollowed''"
| "Action_String ActionCreated = ''created''"
| "Action_String ActionDeleted = ''deleted''"
| "Action_String ActionLiked = ''liked''"
| "Action_String ActionUnliked = ''unliked''"
| "Action_String ActionCommented = ''commented''"
| "Action_String ActionUncommented = ''uncommented''"
| "Action_String ActionShared = ''shared''"
| "Action_String ActionUnknown = ''unknown''"

text \<open>
  \<open>Model(&T{}).Where(cond).UpdateColumn(column, expr)\<close> is one \<open>UPDATE\<close> statement: every
  row that satisfies the condition gets the column set to the expression evaluated on the
  row itself; it runs no hook and leaves \<open>updated_at\<close> alone. A statement that matches no
  row is no error.
\<close>

definition UpdateColumn :: "('r \<Rightarrow> bool) \<Rightarrow> ('r \<Rightarrow> 'r) \<Rightarrow> 'r list \<Rightarrow> 'r list" where
  "UpdateColumn cond set_col rows = map (\<lambda>r. if cond r then set_col r else r) rows"

text \<open>SQL \<open>GREATEST(a, b)\<close> on two non-null integers.\<close>

definition sql_GREATEST :: "int \<Rightarrow> int \<Rightarrow> int" where
  "sql_GREATEST a b = max a b"

text \<open>
  \<open>userRepository.UpdateFollowCount\<close>: the expressions are \<open>follower_count + ?\<close>,
  \<open>follower_count - ?\<close>, \<open>following_count + ?\<close> and \<open>following_count - ?\<close>, with the
  parameter bound to \<open>1\<close>.
\<close>

definition userRepository_UpdateFollowCount ::
  "DB \<Rightarrow> string \<Rightarrow> Action \<Rightarrow> DB \<times> error option" where
  "userRepository_UpdateFollowCount db username action =
     (let cond = (\<lambda>u. Username u = username \<and> DeletedAt u = None) in
      case action of
        ActionFollowed \<Rightarrow>
          (db\<lparr>users := UpdateColumn cond
                 (\<lambda>u. u\<lparr>FollowerCount := FollowerCount u + 1\<rparr>) (users db)\<rparr>, None)
      | ActionUnfollowed \<Rightarrow>
          (db\<lparr>users := UpdateColumn cond
                 (\<lambda>u. u\<lparr>FollowerCount := FollowerCount u - 1\<rparr>) (users db)\<rparr>, None)
      | ActionFollowing \<Rightarrow>
          (db\<lparr>users := UpdateColumn cond
                 (\<lambda>u. u\<lparr>FollwingCount := FollwingCount u + 1\<rparr>) (users db)\<rparr>, None)
      | ActionUnfollowing \<Rightarrow>
          (db\<lparr>users := UpdateColumn cond
                 (\<lambda>u. u\<lparr>FollwingCount := FollwingCount u - 1\<rparr>) (users db)\<rparr>, None)
      | _ \<Rightarrow> (db, Some (ErrInvalidAction (Action_String action))))"

text \<open>\<open>userRepository.UpdatePostCount\<close>: \<open>post_count + ?\<close> and \<open>post_count - ?\<close>, bound to \<open>1\<close>.\<close>

definition userRepository_UpdatePostCount ::
  "DB \<Rightarrow> int \<Rightarrow> Action \<Rightarrow> DB \<times> error option" where
  "userRepository_UpdatePostCount db uid action =
     (let cond = (\<lambda>u. ID u = uid \<and> DeletedAt u = None) in
      case action of
        ActionCreated \<Rightarrow>
          (db\<lparr>users := UpdateColumn cond
                 (\<lambda>u. u\<lparr>PostCount := PostCount u + 1\<rparr>) (users db)\<rparr>, None)
      | ActionDeleted \<Rightarrow>
          (db\<lparr>users := UpdateColumn cond
                 (\<lambda>u. u\<lparr>PostCount := PostCount u - 1\<rparr>) (users db)\<rparr>, None)
      | _ \<Rightarrow> (db, Some (ErrInvalidAction (Action_String action))))"

text \<open>
  \<open>postRepository.UpdatePostCount\<close>: the increments are \<open>column + 1\<close>, the decrements
  \<open>GREATEST(column - 1, 0)\<close>; any other action returns \<open>nil\<close> without a statement.
\<close>

definition postRepository_UpdatePostCount ::
  "DB \<Rightarrow> int \<Rightarrow> Action \<Rightarrow> DB \<times> error option" where
  "postRepository_UpdatePostCount db pid action =
     (let cond = (\<lambda>p. ID p = pid \<and> DeletedAt p = None) in
      case action of
        ActionLiked \<Rightarrow>
          (db\<lparr>posts := UpdateColumn cond
                 (\<lambda>p. p\<lparr>LikeCount := LikeCount p + 1\<rparr>) (posts db)\<rparr>, None)
      | ActionUnliked \<Rightarrow>
          (db\<lparr>posts := UpdateColumn cond
                 (\<lambda>p. p\<lparr>LikeCount := sql_GREATEST (LikeCount p - 1) 0\<rparr>) (posts db)\<rparr>, None)
      | ActionCommented \<Rightarrow>
          (db\<lparr>posts := UpdateColumn cond
                 (\<lambda>p. p\<lparr>CommentCount := CommentCount p + 1\<rparr>) (posts db)\<rparr>, None)
      | ActionUncommented \<Rightarrow>
          (db\<lparr>posts := UpdateColumn cond
                 (\<lambda>p. p\<lparr>CommentCount := sql_GREATEST (CommentCount p - 1) 0\<rparr>) (posts db)\<rparr>,
           None)
      | ActionShared \<Rightarrow>
          (db\<lparr>posts := UpdateColumn cond
                 (\<lambda>p. p\<lparr>ShareCount := ShareCount p + 1\<rparr>) (posts db)\<rparr>, None)
      | _ \<Rightarrow> (db, None))"

section \<open>Feed fan-out writer\<close>


text \<open>
  Modelled from the spec: the enumeration of an author's followers by the graph store,
  which no source file contains. The spec (4.4): "followers of X = { u : Follow(u, X)
  exists and is not soft-deleted }".
\<close>

definition followers_of :: "DB \<Rightarrow> int \<Rightarrow> int list" where
  "followers_of db x =
     map FollowerID (filter (\<lambda>f. FollowingID f = x \<and> DeletedAt f = None) (follows db))"

text \<open>
  Modelled from the spec: the fan-out writer \<open>publish\<close>, which no source file contains
  (the sources declare the \<open>ActivityFeed\<close> row and read the table, nothing writes it).
  The spec (4.4): publish "enumerates the set of followers of the post's author via the
  Graph Store [...], then inserts one ActivityFeedEntry per follower referencing
  (subscriber=follower, post, author, post.created_at)", and "if the author has zero
  followers, zero entries are written and this is not an error".
\<close>

definition fan_out_entry :: "time \<Rightarrow> Post \<Rightarrow> int \<Rightarrow> int \<Rightarrow> ActivityFeed" where
  "fan_out_entry now post key follower =
     \<lparr>ID = key, CreatedAt = now, UpdatedAt = now, DeletedAt = None,
      Feed_UserID = follower, Feed_PostID = ID post, AuthorID = Post_UserID post,
      PostCreated = CreatedAt post\<rparr>"

definition publish :: "DB \<Rightarrow> time \<Rightarrow> Post \<Rightarrow> DB \<times> error option" where
  "publish db now post =
     (let fs = followers_of db (Post_UserID post);
          keys = map (\<lambda>i. next_id (activity_feeds db) + int i) [0..<length fs]
      in (db\<lparr>activity_feeds := activity_feeds db
               @ map (\<lambda>(key, follower). fan_out_entry now post key follower) (zip keys fs)\<rparr>,
          None))"

definition entries_of_post :: "DB \<Rightarrow> int \<Rightarrow> ActivityFeed list" where
  "entries_of_post db pid = filter (\<lambda>e. Feed_PostID e = pid) (activity_feeds db)"

text \<open>Follows and unfollows that happen later, as calls of the follow repository.\<close>

datatype graph_op = OpFollow time int int | OpUnfollow time int int

fun run_graph_op :: "graph_op \<Rightarrow> DB \<Rightarrow> DB" where
  "run_graph_op (OpFollow now a b) db = fst (followRepository_Follow db now a b)"
| "run_graph_op (OpUnfollow now a b) db = fst (followRepository_Unfollow db now a b)"

definition run_graph_ops :: "graph_op list \<Rightarrow> DB \<Rightarrow> DB" where
  "run_graph_ops ops db = fold run_graph_op ops db"

text \<open>The unique index \<open>idx_follower_following\<close> as an invariant of the \<open>follows\<close> table.\<close>

definition follows_unique :: "DB \<Rightarrow> bool" where
  "follows_unique db = distinct (map (\<lambda>f. (FollowerID f, FollowingID f)) (follows db))"

section \<open>Example rows\<close>

text \<open>Small concrete rows and stores on which the operations are evaluated.\<close>

definition db_empty :: DB where
  "db_empty = \<lparr>users = [], follows = [], posts = [], comments = [], reactions = [],
               activity_feeds = []\<rparr>"

definition ex_user :: "int \<Rightarrow> string \<Rightarrow> time option \<Rightarrow> User" where
  "ex_user i name del =
     \<lparr>ID = i, CreatedAt = 1, UpdatedAt = 1, DeletedAt = del, Username = name, Email = [],
      PasswordHash = [], FullName = [], Bio = [], AvatarURL = [], IsVerified = False,
      IsPrivate = False, FollwingCount = 0, FollowerCount = 0, PostCount = 0\<rparr>"

definition ex_follow :: "int \<Rightarrow> int \<Rightarrow> int \<Rightarrow> time option \<Rightarrow> Follow" where
  "ex_follow i a b del =
     \<lparr>ID = i, CreatedAt = 1, UpdatedAt = 1, DeletedAt = del, FollowerID = a,
      FollowingID = b\<rparr>"

definition ex_post :: "int \<Rightarrow> int \<Rightarrow> time \<Rightarrow> time option \<Rightarrow> Post" where
  "ex_post i author created del =
     \<lparr>ID = i, CreatedAt = created, UpdatedAt = created, DeletedAt = del,
      Post_UserID = author, Post_Content = [], Post_MediaType = MediaTypeText, MediaURL = [],
      IsPublic = True, ViewCount = 0, ShareCount = 0, LikeCount = 0, CommentCount = 0\<rparr>"

definition ex_reaction ::
  "int \<Rightarrow> int \<Rightarrow> int option \<Rightarrow> int option \<Rightarrow> ReactionType \<Rightarrow> time option \<Rightarrow> Reaction" where
  "ex_reaction i u p c k del =
     \<lparr>ID = i, CreatedAt = 1, UpdatedAt = 1, DeletedAt = del, Reaction_UserID = u,
      Reaction_PostID = p, Reaction_CommentID = c, Reaction_Type = k\<rparr>"

text \<open>Users 1 and 2, where 1 follows 2 and an older edge from 2 to 1 is soft-deleted.\<close>

definition db_graph :: DB where
  "db_graph = db_empty\<lparr>users := [ex_user 1 ''alice'' None, ex_user 2 ''bob'' None],
                        follows := [ex_follow 1 1 2 None, ex_follow 2 2 1 (Some 5)]\<rparr>"

text \<open>
  Users 1, 2, 3 and 4: users 2 and 3 follow user 1, user 4 followed user 1 and has
  unfollowed since. User 1 has no counted follower and no counted post.
\<close>

definition db_fan :: DB where
  "db_fan = db_empty\<lparr>users := [ex_user 1 ''alice'' None, ex_user 2 ''bob'' None,
                                ex_user 3 ''carol'' None, ex_user 4 ''dave'' None],
                      follows := [ex_follow 1 2 1 None, ex_follow 2 3 1 None,
                                  ex_follow 3 4 1 (Some 5)],
                      posts := [ex_post 7 1 20 None]\<rparr>"

section \<open>Feed reader\<close>

text \<open>
  The result rows of package \<open>dto\<close>. \<open>FeedPost\<close> embeds the post row (\<open>posts.*\<close>);
  \<open>CommentWithReplies\<close> embeds the comment row and holds its replies, so it is a tree.
\<close>

record FeedPost =
  FeedPost_Post :: Post
  Author :: User
  HasUserLiked :: bool
  HasUserSaved :: bool



subsection \<open>The store's evaluation of a statement\<close>

text \<open>
  A statement is checked before any row is read: each qualified column \<open>q.c\<close> it names
  must have its qualifier \<open>q\<close> among the tables and aliases of the \<open>FROM\<close> and \<open>JOIN\<close>
  clauses. PostgreSQL, MySQL and SQLite all reject a statement that fails this check,
  whatever the tables hold; the mapper returns that error from \<open>Scan\<close> or \<open>First\<close>.
\<close>

definition unresolved :: "string list \<Rightarrow> (string \<times> string) list \<Rightarrow> (string \<times> string) list" where
  "unresolved scope refs = filter (\<lambda>(q, c). q \<notin> set scope) refs"

definition run_query :: "string list \<Rightarrow> (string \<times> string) list \<Rightarrow> 'a \<Rightarrow> error + 'a" where
  "run_query scope refs rows =
     (case unresolved scope refs of
        [] \<Rightarrow> Inr rows
      | (q, c) # _ \<Rightarrow> Inl (ErrUnknownColumn q c))"

text \<open>
  \<open>LEFT JOIN\<close>: a left row with no match is kept once, with the right side \<open>NULL\<close>;
  otherwise it appears once per matching right row.
\<close>

definition left_join :: "'b list \<Rightarrow> 'b option list" where
  "left_join matches = (if matches = [] then [None] else map Some matches)"

text \<open>
  \<open>ORDER BY key DESC\<close>. The engines leave the order of rows with equal keys open; the
  model keeps them in the order the join produced them (a stable sort).
\<close>

definition order_by_desc :: "('a \<Rightarrow> int) \<Rightarrow> 'a list \<Rightarrow> 'a list" where
  "order_by_desc key rows = sort_key (\<lambda>r. - key r) rows"


text \<open>
  \<open>Limit(limit).Offset(offset)\<close>: the mapper writes \<open>LIMIT\<close> for a limit that is not
  negative and \<open>OFFSET\<close> for an offset above zero.
\<close>

definition limit_offset :: "int \<Rightarrow> int \<Rightarrow> 'a list \<Rightarrow> 'a list" where
  "limit_offset limit offset rows =
     (let rest = (if offset > 0 then drop (nat offset) rows else rows)
      in if limit \<ge> 0 then take (nat limit) rest else rest)"

text \<open>
  The join \<open>LEFT JOIN reactions user_likes ON posts.id = user_likes.post_id AND
  user_likes.user_id = ? AND user_likes.type = 'like' AND user_likes.deleted_at IS NULL\<close>
  of the three post queries, and its twin on \<open>comments.id = user_likes.comment_id\<close>.
  The \<open>type\<close> column is compared under the name \<open>ReactionType.String\<close> gives the kind.
\<close>

definition user_likes_post :: "DB \<Rightarrow> int \<Rightarrow> Post \<Rightarrow> Reaction list" where
  "user_likes_post db userID p =
     filter (\<lambda>r. Reaction_PostID r = Some (ID p) \<and> Reaction_UserID r = userID
                 \<and> ReactionType_String (Reaction_Type r) = ''like'' \<and> DeletedAt r = None)
       (reactions db)"


text \<open>
  The columns selected under the aliases \<open>author__id\<close>, \<open>author__username\<close>,
  \<open>author__full_name\<close>, \<open>author__avatar_url\<close> and (for posts) \<open>author__is_verified\<close>
  fill the \<open>Author\<close> of the result; its other fields keep Go's zero values.
\<close>

definition zero_User :: User where
  "zero_User =
     \<lparr>ID = 0, CreatedAt = 0, UpdatedAt = 0, DeletedAt = None, Username = [], Email = [],
      PasswordHash = [], FullName = [], Bio = [], AvatarURL = [], IsVerified = False,
      IsPrivate = False, FollwingCount = 0, FollowerCount = 0, PostCount = 0\<rparr>"

definition post_author :: "User \<Rightarrow> User" where
  "post_author u =
     zero_User\<lparr>ID := ID u, Username := Username u, FullName := FullName u,
               AvatarURL := AvatarURL u, IsVerified := IsVerified u\<rparr>"


definition scan_FeedPost :: "Post \<Rightarrow> User \<Rightarrow> Reaction option \<Rightarrow> FeedPost" where
  "scan_FeedPost p u l =
     \<lparr>FeedPost_Post = p, Author = post_author u, HasUserLiked = (l \<noteq> None),
      HasUserSaved = False\<rparr>"

subsection \<open>Home timeline\<close>





subsection \<open>Explore feed\<close>

text \<open>
  \<open>feedRepository.GetExploreFeed\<close>. The selected expression
  \<open>(COALESCE(like_counts.count, 0) * 3 + COALESCE(comment_counts.count, 0) * 5 +
  posts.share_count * 2) as engagement_score\<close> is \<open>engagement_score\<close> below, applied to
  the two coalesced counts and the share counter.
\<close>

definition COALESCE :: "int option \<Rightarrow> int \<Rightarrow> int" where
  "COALESCE v d = (case v of None \<Rightarrow> d | Some x \<Rightarrow> x)"

definition engagement_score :: "int \<Rightarrow> int \<Rightarrow> int \<Rightarrow> int" where
  "engagement_score likes cmts shares = likes * 3 + cmts * 5 + shares * 2"

definition explore_rows :: "DB \<Rightarrow> int \<Rightarrow> time \<Rightarrow> (Post \<times> User \<times> Reaction option) list" where
  "explore_rows db userID cutoffTime =
     [(p, u, l).
        p \<leftarrow> posts db,
        u \<leftarrow> users db, Post_UserID p = ID u \<and> DeletedAt u = None,
        l \<leftarrow> left_join (user_likes_post db userID p),
        IsPublic p = True \<and> CreatedAt p \<ge> cutoffTime \<and> DeletedAt p = None]"

text \<open>
  The tables and aliases the statement brings into scope are \<open>posts\<close>, \<open>users\<close> and
  \<open>user_likes\<close>. It joins nothing under the names \<open>like_counts\<close> and \<open>comment_counts\<close>,
  so a row holds no value for \<open>like_counts.count\<close> or \<open>comment_counts.count\<close>.
\<close>

definition explore_scope :: "string list" where
  "explore_scope = [''posts'', ''users'', ''user_likes'']"

definition explore_refs :: "(string \<times> string) list" where
  "explore_refs =
     [(''posts'', ''*''), (''users'', ''id''), (''users'', ''username''),
      (''users'', ''full_name''), (''users'', ''avatar_url''), (''users'', ''is_verified''),
      (''user_likes'', ''id''),
      (''like_counts'', ''count''), (''comment_counts'', ''count''), (''posts'', ''share_count''),
      (''posts'', ''user_id''), (''users'', ''id''), (''users'', ''deleted_at''),
      (''posts'', ''id''), (''user_likes'', ''post_id''), (''user_likes'', ''user_id''),
      (''user_likes'', ''type''), (''user_likes'', ''deleted_at''),
      (''posts'', ''is_public''), (''posts'', ''created_at''), (''posts'', ''deleted_at''),
      (''posts'', ''created_at'')]"

text \<open>
  The score of a joined row. A row has no column \<open>like_counts.count\<close> or
  \<open>comment_counts.count\<close> to read, so both counts are \<open>NULL\<close> here; the statement is
  rejected before any row is scored.
\<close>

definition explore_score :: "Post \<times> User \<times> Reaction option \<Rightarrow> int" where
  "explore_score row =
     (case row of (p, u, l) \<Rightarrow>
        engagement_score (COALESCE None 0) (COALESCE None 0) (ShareCount p))"

definition GetExploreFeed ::
  "DB \<Rightarrow> int \<Rightarrow> int \<Rightarrow> int \<Rightarrow> time \<Rightarrow> time \<Rightarrow> error + FeedPost list" where
  "GetExploreFeed db userID limit offset now timeRange =
     (let cutoffTime = now - timeRange in
      case run_query explore_scope explore_refs
             (map (\<lambda>(p, u, l). scan_FeedPost p u l)
                (limit_offset limit offset
                   (order_by_desc explore_score
                      (order_by_desc (\<lambda>(p, u, l). CreatedAt p)
                         (explore_rows db userID cutoffTime)))))
      of Inl err \<Rightarrow> Inl (Wrapped ''failed to fetch explore feed'' err)
       | Inr feedPosts \<Rightarrow> Inr feedPosts)"

subsection \<open>Thread assembler\<close>






subsection \<open>Post detail\<close>







subsection \<open>Reference notions for the reader's results\<close>




subsection \<open>Example stores for the feed reader\<close>




text \<open>
  Three public posts of user 1 whose (likes, comments, shares) counters are (10, 0, 0),
  (0, 2, 0) and (0, 0, 5), created at 20, 21 and 22.
\<close>

definition db_explore :: DB where
  "db_explore = db_empty\<lparr>
     users := [ex_user 1 ''alice'' None, ex_user 2 ''bob'' None],
     posts := [(ex_post 7 1 20 None)\<lparr>LikeCount := 10\<rparr>,
               (ex_post 8 1 21 None)\<lparr>CommentCount := 2\<rparr>,
               (ex_post 9 1 22 None)\<lparr>ShareCount := 5\<rparr>]\<rparr>"


subsection \<open>Reference notions for the home timeline\<close>








subsection \<open>Reference notions for the comment thread\<close>












section \<open>Properties of the graph store\<close>

text \<open>
  C8. A follow of oneself fails with the hook's error \<open>gorm.ErrInvalidData\<close>, and a follow
  whose live edge already exists fails too: with the unique index's
  \<open>gorm.ErrDuplicatedKey\<close> when the two users differ. These two errors are the constraint
  violations of the graph store. In both cases the store is left as it was, so no edge is
  created.
\<close>

theorem follow_constraint_violation:
  "followRepository_Follow db now a a = (db, Some ErrInvalidData)
   \<and> (live_edge db a b \<longrightarrow>
        followRepository_Follow db now a b
          = (db, Some (if a = b then ErrInvalidData else ErrDuplicatedKey)))"
  by (auto simp: followRepository_Follow_def Follow_BeforeCreate_def live_edge_def
      idx_follower_following_taken_def list_ex_iff)

theorem follow_constraint_violation_witness:
  "live_edge db_graph 1 2
   \<and> followRepository_Follow db_graph 9 1 2 = (db_graph, Some ErrDuplicatedKey)
   \<and> followRepository_Follow db_graph 9 1 1 = (db_graph, Some ErrInvalidData)"
proof -
  have e: "live_edge db_graph 1 2"
    by (simp add: live_edge_def db_graph_def db_empty_def ex_follow_def)
  from follow_constraint_violation [of db_graph 9 1 2] e show ?thesis by simp
qed

text \<open>
  C10. Unfollow on a pair with no live edge (never created, or already soft-deleted)
  returns no error and leaves the store exactly as it was.
\<close>

theorem unfollow_missing_edge_noop:
  "\<not> live_edge db a b \<Longrightarrow> followRepository_Unfollow db now a b = (db, None)"
proof -
  assume "\<not> live_edge db a b"
  then have "\<forall>r \<in> set (follows db).
      \<not> (FollowerID r = a \<and> FollowingID r = b \<and> DeletedAt r = None)"
    by (simp add: live_edge_def list_ex_iff)
  then have "map (\<lambda>r. if FollowerID r = a \<and> FollowingID r = b \<and> DeletedAt r = None
                      then r\<lparr>DeletedAt := Some now\<rparr> else r) (follows db) = follows db"
    by (intro map_idI) auto
  then show ?thesis by (simp add: followRepository_Unfollow_def)
qed

theorem unfollow_missing_edge_noop_witness:
  "\<not> live_edge db_graph 2 1 \<and> \<not> live_edge db_graph 2 2
   \<and> followRepository_Unfollow db_graph 9 2 1 = (db_graph, None)
   \<and> followRepository_Unfollow db_graph 9 2 2 = (db_graph, None)"
proof -
  have a: "\<not> live_edge db_graph 2 1" and b: "\<not> live_edge db_graph 2 2"
    by (simp_all add: live_edge_def db_graph_def db_empty_def ex_follow_def)
  from unfollow_missing_edge_noop [OF a, of 9] unfollow_missing_edge_noop [OF b, of 9] a b
  show ?thesis by simp
qed

section \<open>Properties of the reaction validator\<close>

text \<open>
  C2. Creating a reaction whose post reference and comment reference are both null or
  both non-null fails with the hook's error \<open>gorm.ErrInvalidData\<close> (the invalid-target
  error) and leaves the whole store as it was: no reaction row is added and no counter
  changes. A creation that returns no error had exactly one of the two references set.
\<close>

theorem reaction_invalid_target:
  "((Reaction_PostID r = None) = (Reaction_CommentID r = None)
      \<longrightarrow> Create_Reaction db now r = (db, Some ErrInvalidData))
   \<and> (snd (Create_Reaction db now r) = None
      \<longrightarrow> (Reaction_PostID r = None) \<noteq> (Reaction_CommentID r = None))"
  by (auto simp: Create_Reaction_def Reaction_BeforeCreate_def)

theorem reaction_invalid_target_witness:
  "Create_Reaction db_graph 9 (ex_reaction 0 1 None None ReactionTypeLike None)
     = (db_graph, Some ErrInvalidData)
   \<and> Create_Reaction db_graph 9 (ex_reaction 0 1 (Some 3) (Some 4) ReactionTypeLike None)
     = (db_graph, Some ErrInvalidData)
   \<and> snd (Create_Reaction db_graph 9 (ex_reaction 0 1 (Some 3) None ReactionTypeLike None))
     = None
   \<and> reactions (fst (Create_Reaction db_graph 9
        (ex_reaction 0 1 (Some 3) None ReactionTypeLike None)))
     = [ex_reaction 1 1 (Some 3) None ReactionTypeLike None
          \<lparr>CreatedAt := 9, UpdatedAt := 9\<rparr>]"
  using reaction_invalid_target [of "ex_reaction 0 1 None None ReactionTypeLike None" db_graph 9]
    reaction_invalid_target
      [of "ex_reaction 0 1 (Some 3) (Some 4) ReactionTypeLike None" db_graph 9]
    reaction_invalid_target
      [of "ex_reaction 0 1 (Some 3) None ReactionTypeLike None" db_graph 9]
  by (simp add: ex_reaction_def Create_Reaction_def Reaction_BeforeCreate_def
      db_graph_def db_empty_def next_id_def)

section \<open>Properties of the counter engine\<close>

lemma UpdateColumn_all:
  "\<forall>r \<in> set rows. P r \<and> P (f r) \<Longrightarrow> \<forall>r \<in> set (UpdateColumn c f rows). P r"
  by (auto simp: UpdateColumn_def)

text \<open>
  The post counters are kept at or above zero by every adjustment of
  \<open>postRepository.UpdatePostCount\<close>: its decrements are clamped with \<open>GREATEST\<close>.
\<close>

lemma post_counters_never_negative:
  assumes "\<forall>p \<in> set (posts db). 0 \<le> LikeCount p \<and> 0 \<le> CommentCount p \<and> 0 \<le> ShareCount p"
  shows "\<forall>p \<in> set (posts (fst (postRepository_UpdatePostCount db pid action))).
           0 \<le> LikeCount p \<and> 0 \<le> CommentCount p \<and> 0 \<le> ShareCount p"
proof (cases action)
  case ActionLiked
  show ?thesis unfolding ActionLiked postRepository_UpdatePostCount_def
    using assms by (simp del: ball_simps) (rule UpdateColumn_all, simp)
next
  case ActionUnliked
  show ?thesis unfolding ActionUnliked postRepository_UpdatePostCount_def
    using assms by (simp del: ball_simps) (rule UpdateColumn_all, simp add: sql_GREATEST_def)
next
  case ActionCommented
  show ?thesis unfolding ActionCommented postRepository_UpdatePostCount_def
    using assms by (simp del: ball_simps) (rule UpdateColumn_all, simp)
next
  case ActionUncommented
  show ?thesis unfolding ActionUncommented postRepository_UpdatePostCount_def
    using assms by (simp del: ball_simps) (rule UpdateColumn_all, simp add: sql_GREATEST_def)
next
  case ActionShared
  show ?thesis unfolding ActionShared postRepository_UpdatePostCount_def
    using assms by (simp del: ball_simps) (rule UpdateColumn_all, simp)
qed (use assms in \<open>simp_all add: postRepository_UpdatePostCount_def\<close>)

text \<open>
  The user counters are decremented without a clamp: an unfollow or a post deletion
  subtracts one from whatever the column holds.
\<close>

lemma user_counter_decrement_unclamped:
  "map FollowerCount (users (fst (userRepository_UpdateFollowCount db name ActionUnfollowed)))
     = map (\<lambda>u. if Username u = name \<and> DeletedAt u = None
                 then FollowerCount u - 1 else FollowerCount u) (users db)"
  by (simp add: userRepository_UpdateFollowCount_def UpdateColumn_def if_distrib cong: if_cong)

text \<open>
  C1. The claim is that a decrement of any User or Post counter that stands at zero
  yields zero. Evaluated on a user whose \<open>follower_count\<close>, \<open>following_count\<close> and
  \<open>post_count\<close> are zero, the three decrements of the user repository return no error
  and store \<open>-1\<close>; the same decrement of a post's \<open>like_count\<close> at zero stores \<open>0\<close>.
\<close>

theorem user_counter_below_zero:
  "map FollowerCount (users (fst (userRepository_UpdateFollowCount db_fan ''alice'' ActionUnfollowed)))
     = [-1, 0, 0, 0]
   \<and> snd (userRepository_UpdateFollowCount db_fan ''alice'' ActionUnfollowed) = None
   \<and> map FollwingCount (users (fst (userRepository_UpdateFollowCount db_fan ''alice'' ActionUnfollowing)))
     = [-1, 0, 0, 0]
   \<and> map PostCount (users (fst (userRepository_UpdatePostCount db_fan 1 ActionDeleted)))
     = [-1, 0, 0, 0]
   \<and> map LikeCount (posts (fst (postRepository_UpdatePostCount db_fan 7 ActionUnliked))) = [0]"
  by (simp add: userRepository_UpdateFollowCount_def userRepository_UpdatePostCount_def
      postRepository_UpdatePostCount_def UpdateColumn_def sql_GREATEST_def
      db_fan_def db_empty_def ex_user_def ex_post_def)

section \<open>Properties of the fan-out writer\<close>

lemma set_followers_of: "set (followers_of db x) = {u. live_edge db u x}"
  by (auto simp: followers_of_def live_edge_def list_ex_iff)

lemma distinct_followers_of:
  assumes "follows_unique db"
  shows "distinct (followers_of db x)"
proof -
  let ?live = "filter (\<lambda>f. FollowingID f = x \<and> DeletedAt f = None) (follows db)"
  from assms have d: "distinct (follows db)"
    and inj: "inj_on (\<lambda>f. (FollowerID f, FollowingID f)) (set (follows db))"
    by (simp_all add: follows_unique_def distinct_map)
  have "inj_on FollowerID (set ?live)"
  proof (rule inj_onI)
    fix f g assume "f \<in> set ?live" "g \<in> set ?live" "FollowerID f = FollowerID g"
    then have "f \<in> set (follows db)" "g \<in> set (follows db)"
      "(FollowerID f, FollowingID f) = (FollowerID g, FollowingID g)"
      by auto
    with inj show "f = g" by (meson inj_onD)
  qed
  with d show ?thesis by (simp add: followers_of_def distinct_map)
qed

lemma length_followers_of:
  "follows_unique db \<Longrightarrow> length (followers_of db x) = card {u. live_edge db u x}"
  using distinct_card [OF distinct_followers_of, of db x] by (simp add: set_followers_of)

lemma publish_feeds:
  "activity_feeds (fst (publish db now P))
     = activity_feeds db
       @ map (\<lambda>(key, u). fan_out_entry now P key u)
           (zip (map (\<lambda>i. next_id (activity_feeds db) + int i)
                   [0..<length (followers_of db (Post_UserID P))])
                (followers_of db (Post_UserID P)))"
  by (simp add: publish_def Let_def)

lemma fan_out_fields:
  "length ks = length us \<Longrightarrow>
   map (\<lambda>e. (Feed_UserID e, Feed_PostID e, AuthorID e, PostCreated e))
       (map (\<lambda>(key, u). fan_out_entry now P key u) (zip ks us))
     = map (\<lambda>u. (u, ID P, Post_UserID P, CreatedAt P)) us"
  by (induction ks us rule: list_induct2) (simp_all add: fan_out_entry_def)

lemma fan_out_filter:
  "filter (\<lambda>e. Feed_PostID e = ID P) (map (\<lambda>(key, u). fan_out_entry now P key u) kus)
     = map (\<lambda>(key, u). fan_out_entry now P key u) kus"
  by (induction kus) (auto simp: fan_out_entry_def)

lemma run_graph_op_feeds: "activity_feeds (run_graph_op op db) = activity_feeds db"
  by (cases op)
     (simp_all add: followRepository_Follow_def followRepository_Unfollow_def Let_def
        split: option.splits)

lemma run_graph_ops_feeds: "activity_feeds (run_graph_ops ops db) = activity_feeds db"
  unfolding run_graph_ops_def
  by (induction ops arbitrary: db) (simp_all add: run_graph_op_feeds)

lemma follows_unique_empty: "follows_unique db_empty"
  by (simp add: follows_unique_def db_empty_def)

lemma follows_unique_Follow:
  "follows_unique db \<Longrightarrow> follows_unique (fst (followRepository_Follow db now a b))"
  by (auto simp: follows_unique_def followRepository_Follow_def Let_def
      idx_follower_following_taken_def list_ex_iff split: option.splits)

lemma soft_delete_keeps_pairs:
  "map (\<lambda>f. (FollowerID f, FollowingID f))
     (map (\<lambda>r. if c r then r\<lparr>DeletedAt := Some now\<rparr> else r) rows)
   = map (\<lambda>f. (FollowerID f, FollowingID f)) rows"
  by (induction rows) auto

lemma follows_unique_Unfollow:
  "follows_unique db \<Longrightarrow> follows_unique (fst (followRepository_Unfollow db now a b))"
  by (simp add: follows_unique_def followRepository_Unfollow_def soft_delete_keeps_pairs
      del: map_map)

text \<open>
  C3. On a store whose \<open>follows\<close> table satisfies its unique index, publishing a post \<open>P\<close>
  that no feed entry references yet returns no error and appends exactly one entry per
  follower of the author at that moment: as many entries reference \<open>P\<close> as the author has
  live followers, no subscriber twice, and each carries (follower, post id, author id,
  post creation timestamp). With no follower the store is unchanged and there is no
  error. Follows and unfollows run afterwards leave the entries that reference \<open>P\<close> as
  they are.
\<close>

theorem publish_fan_out:
  assumes uniq: "follows_unique db"
    and fresh: "entries_of_post db (ID P) = []"
  shows "snd (publish db now P) = None
    \<and> length (activity_feeds (fst (publish db now P)))
        = length (activity_feeds db) + card {u. live_edge db u (Post_UserID P)}
    \<and> length (entries_of_post (fst (publish db now P)) (ID P))
        = card {u. live_edge db u (Post_UserID P)}
    \<and> distinct (map Feed_UserID (entries_of_post (fst (publish db now P)) (ID P)))
    \<and> set (map (\<lambda>e. (Feed_UserID e, Feed_PostID e, AuthorID e, PostCreated e))
             (entries_of_post (fst (publish db now P)) (ID P)))
        = (\<lambda>u. (u, ID P, Post_UserID P, CreatedAt P)) ` {u. live_edge db u (Post_UserID P)}
    \<and> ({u. live_edge db u (Post_UserID P)} = {} \<longrightarrow> publish db now P = (db, None))
    \<and> entries_of_post (run_graph_ops ops (fst (publish db now P))) (ID P)
        = entries_of_post (fst (publish db now P)) (ID P)"
proof -
  let ?fs = "followers_of db (Post_UserID P)"
  let ?ks = "map (\<lambda>i. next_id (activity_feeds db) + int i) [0..<length ?fs]"
  let ?new = "map (\<lambda>(key, u). fan_out_entry now P key u) (zip ?ks ?fs)"
  let ?db' = "fst (publish db now P)"
  have len: "length ?ks = length ?fs" by simp
  have feeds: "activity_feeds ?db' = activity_feeds db @ ?new"
    by (rule publish_feeds)
  have ents: "entries_of_post ?db' (ID P) = ?new"
    using fresh by (simp add: entries_of_post_def feeds fan_out_filter)
  have fields: "map (\<lambda>e. (Feed_UserID e, Feed_PostID e, AuthorID e, PostCreated e)) ?new
      = map (\<lambda>u. (u, ID P, Post_UserID P, CreatedAt P)) ?fs"
    by (rule fan_out_fields [OF len])
  have subs: "map Feed_UserID ?new = ?fs"
  proof -
    have "map Feed_UserID ?new
        = map fst (map (\<lambda>e. (Feed_UserID e, Feed_PostID e, AuthorID e, PostCreated e)) ?new)"
      by (simp add: comp_def)
    also have "\<dots> = ?fs" by (simp only: fields) (simp add: comp_def)
    finally show ?thesis .
  qed
  have c1: "snd (publish db now P) = None" by (simp add: publish_def Let_def)
  have c2: "length (activity_feeds ?db') = length (activity_feeds db)
      + card {u. live_edge db u (Post_UserID P)}"
    by (simp add: feeds length_followers_of [OF uniq, symmetric])
  have c3: "length (entries_of_post ?db' (ID P)) = card {u. live_edge db u (Post_UserID P)}"
    by (simp add: ents length_followers_of [OF uniq, symmetric])
  have c4: "distinct (map Feed_UserID (entries_of_post ?db' (ID P)))"
    by (simp only: ents subs distinct_followers_of [OF uniq])
  have c5: "set (map (\<lambda>e. (Feed_UserID e, Feed_PostID e, AuthorID e, PostCreated e))
             (entries_of_post ?db' (ID P)))
        = (\<lambda>u. (u, ID P, Post_UserID P, CreatedAt P)) ` {u. live_edge db u (Post_UserID P)}"
    by (simp only: ents fields) (simp add: set_followers_of)
  have c6: "{u. live_edge db u (Post_UserID P)} = {} \<longrightarrow> publish db now P = (db, None)"
  proof
    assume "{u. live_edge db u (Post_UserID P)} = {}"
    then have "?fs = []" using set_followers_of [of db "Post_UserID P"] by simp
    then show "publish db now P = (db, None)" by (simp add: publish_def)
  qed
  have c7: "entries_of_post (run_graph_ops ops ?db') (ID P) = entries_of_post ?db' (ID P)"
    by (simp add: entries_of_post_def run_graph_ops_feeds)
  from c1 c2 c3 c4 c5 c6 c7 show ?thesis by blast
qed

theorem publish_fan_out_witness:
  "follows_unique db_fan \<and> entries_of_post db_fan 7 = []
   \<and> map (\<lambda>e. (Feed_UserID e, Feed_PostID e, AuthorID e, PostCreated e))
        (activity_feeds (fst (publish db_fan 21 (ex_post 7 1 20 None))))
      = [(2, 7, 1, 20), (3, 7, 1, 20)]
   \<and> card {u. live_edge db_fan u 1} = 2
   \<and> {u. live_edge db_fan u 2} = {}
   \<and> publish db_fan 21 (ex_post 8 2 20 None) = (db_fan, None)
   \<and> entries_of_post
        (run_graph_ops [OpUnfollow 30 2 1, OpFollow 31 1 2]
           (fst (publish db_fan 21 (ex_post 7 1 20 None)))) 7
      = entries_of_post (fst (publish db_fan 21 (ex_post 7 1 20 None))) 7"
proof -
  have u: "follows_unique db_fan"
    by (simp add: follows_unique_def db_fan_def db_empty_def ex_follow_def)
  have f7: "entries_of_post db_fan (ID (ex_post 7 1 20 None)) = []"
    and f8: "entries_of_post db_fan (ID (ex_post 8 2 20 None)) = []"
    by (simp_all add: entries_of_post_def db_fan_def db_empty_def)
  have ev: "map (\<lambda>e. (Feed_UserID e, Feed_PostID e, AuthorID e, PostCreated e))
        (activity_feeds (fst (publish db_fan 21 (ex_post 7 1 20 None))))
      = [(2, 7, 1, 20), (3, 7, 1, 20)]"
    by (simp add: publish_def followers_of_def fan_out_entry_def db_fan_def db_empty_def
        ex_follow_def ex_post_def)
  have none: "{u. live_edge db_fan u 2} = {}"
    by (simp add: live_edge_def db_fan_def db_empty_def ex_follow_def)
  have ids: "ID (ex_post 7 1 20 None) = 7" "Post_UserID (ex_post 7 1 20 None) = 1"
    "ID (ex_post 8 2 20 None) = 8" "Post_UserID (ex_post 8 2 20 None) = 2"
    by (simp_all add: ex_post_def)
  have len: "length (entries_of_post (fst (publish db_fan 21 (ex_post 7 1 20 None))) 7) = 2"
    by (simp add: entries_of_post_def publish_def followers_of_def fan_out_entry_def
        db_fan_def db_empty_def ex_follow_def ex_post_def)
  note t7 = publish_fan_out [OF u f7, of 21 "[OpUnfollow 30 2 1, OpFollow 31 1 2]",
      unfolded ids]
  note t8 = publish_fan_out [OF u f8, of 21 "[]", unfolded ids]
  from t7 len have c: "card {u. live_edge db_fan u 1} = 2" by simp
  from t8 none have z: "publish db_fan 21 (ex_post 8 2 20 None) = (db_fan, None)" by blast
  from t7 have k: "entries_of_post
        (run_graph_ops [OpUnfollow 30 2 1, OpFollow 31 1 2]
           (fst (publish db_fan 21 (ex_post 7 1 20 None)))) 7
      = entries_of_post (fst (publish db_fan 21 (ex_post 7 1 20 None))) 7"
    by blast
  from u f7 [unfolded ids] ev c none z k show ?thesis by blast
qed


section \<open>Properties of the feed reader\<close>

subsection \<open>Statements and the like annotation\<close>









lemma explore_query_fails:
  "run_query explore_scope explore_refs x = Inl (ErrUnknownColumn ''like_counts'' ''count'')"
  by (simp add: run_query_def unresolved_def explore_scope_def explore_refs_def)








subsection \<open>Explore feed\<close>

text \<open>
  The statement of the explore feed names \<open>like_counts.count\<close>, and nothing in its \<open>FROM\<close>
  and \<open>JOIN\<close> clauses is called \<open>like_counts\<close>: the store rejects it for every input.
\<close>

lemma explore_feed_always_rejected:
  "GetExploreFeed db userID limit offset now timeRange
     = Inl (Wrapped ''failed to fetch explore feed''
              (ErrUnknownColumn ''like_counts'' ''count''))"
  by (simp add: GetExploreFeed_def explore_query_fails)

lemma engagement_score_examples:
  "engagement_score 10 0 0 = 30" "engagement_score 0 2 0 = 10" "engagement_score 0 0 5 = 10"
  by (simp_all add: engagement_score_def)

text \<open>
  C5. The claim is that the explore feed returns the public live posts of the window
  ranked by \<open>3*likes + 5*comments + 2*shares\<close>. Evaluated on three such posts with
  counters (10, 0, 0), (0, 2, 0) and (0, 0, 5), \<open>GetExploreFeed\<close> returns no post but the
  error of the rejected statement.
\<close>

theorem explore_feed_rejected:
  "map (\<lambda>p. (LikeCount p, CommentCount p, ShareCount p)) (posts db_explore)
     = [(10, 0, 0), (0, 2, 0), (0, 0, 5)]
   \<and> GetExploreFeed db_explore 2 10 0 100 100
     = Inl (Wrapped ''failed to fetch explore feed''
              (ErrUnknownColumn ''like_counts'' ''count''))"
  by (simp add: explore_feed_always_rejected db_explore_def db_empty_def ex_post_def)

subsection \<open>Home timeline\<close>
















lemma timeline_sorted:
  "sorted (map (\<lambda>e. - PostCreated e) (order_by_desc PostCreated es))"
  by (simp add: order_by_desc_def)










subsection \<open>Thread assembler\<close>




























end
